theory Spec2Isabelle
  imports Complex_Main "HOL-Library.Finite_Map"
begin

section \<open>The aws_s3 module: data model\<close>

text \<open>
  The module is one Python file, \<^verbatim>\<open>plugins/modules/aws_s3.py\<close>. Every function of it
  talks to three collaborators: the Ansible module object (parameters, \<^verbatim>\<open>exit_json\<close>,
  \<^verbatim>\<open>fail_json\<close>), the S3 client, and the local file system. The model makes them explicit:
  the parameters are a record, the collaborators are a record of oracles, and every call to
  a collaborator is appended to a history, which the oracles may consult (so that the same
  request can be answered differently the second time).
\<close>

type_synonym tagdict = "(string, string) fmap"

datatype mode_choice = Get | Put | Delete | Create | Geturl | Getstr | Delobj | List_keys | Copy

record copy_source =
  src_bucket :: string
  src_object :: string
  version_id :: "string option"

text \<open>\<^verbatim>\<open>module.params\<close> after argument parsing, together with \<^verbatim>\<open>module.check_mode\<close>.\<close>

record params =
  bucket :: string
  dest :: "string option"
  expiry :: int
  marker :: string
  max_keys :: int
  mode :: mode_choice
  object :: "string option"
  permission :: "string list"
  version :: "string option"
  overwrite :: string
  prefix :: string
  retries :: int
  s3_url :: "string option"
  dualstack :: bool
  rgw :: bool
  src :: "string option"
  content :: "string option"
  content_base64 :: "string option"
  ignore_nonexistent_bucket :: bool
  tags :: "tagdict option"
  purge_tags :: bool
  copy_src :: "copy_source option"
  check_mode :: bool

text \<open>
  Exceptions. \<open>ClientError code message\<close>, \<open>BotoCoreError\<close> and its subclass
  \<open>EndpointConnectionError\<close> are botocore's; \<open>SSLError\<close> is \<^verbatim>\<open>ssl.SSLError\<close>, which is
  not a botocore exception.
\<close>

datatype s3_error =
    ClientError string string
  | BotoCoreError
  | EndpointConnectionError
  | SSLError

datatype exn =
    S3 s3_error
  | Sigv4Required
  | UnboundLocalError
  | AttributeError
  | Binascii_Error

text \<open>The keyword arguments of \<^verbatim>\<open>module.exit_json\<close>; an argument not passed is \<open>None\<close>.\<close>

record exit_result =
  r_msg :: "string option"
  r_changed :: "bool option"
  r_url :: "string option"
  r_tags :: "tagdict option"
  r_contents :: "string option"
  r_s3_keys :: "string list option"
  r_expiry :: "int option"

text \<open>
  How a computation ends when it does not return: \<^verbatim>\<open>exit_json\<close>, \<^verbatim>\<open>fail_json\<close>,
  \<^verbatim>\<open>fail_json_aws\<close> (both raise \<^verbatim>\<open>SystemExit\<close>, which no handler of the module catches),
  or an exception on its way up.
\<close>

datatype stop =
    Exit_json exit_result
  | Fail_json string
  | Fail_json_aws exn string
  | Raise exn

text \<open>
  The calls to the outside world, in the order the module makes them. Object keys and
  version ids are \<open>string option\<close> because the Python variables may hold \<^verbatim>\<open>None\<close>.
  The \<^verbatim>\<open>ExtraArgs\<close> of uploads and copies (encryption, metadata, content type) are not
  recorded: no control flow depends on them.
\<close>

datatype event =
    Connect bool
  | Head_bucket string
  | Head_object string "string option" "string option"
  | Get_object string "string option" "string option"
  | Download_file string "string option" "string option" "string option"
  | Upload_file string string "string option"
  | Upload_fileobj "string option" string "string option"
  | Put_object string "string option"
  | Put_object_acl string string "string option"
  | Put_bucket_acl string string
  | Create_bucket string "string option"
  | Wait_bucket_exists string
  | List_objects_v2 string "string option" "string option" "int option"
  | List_object_versions string
  | Delete_objects string "(string \<times> string option) list"
  | Delete_bucket string
  | Delete_object string "string option"
  | Copy_object string "string option" string string "string option"
  | Generate_presigned_url string string "string option" int
  | Get_object_tagging string "string option" "string option"
  | Put_object_tagging string "string option" tagdict
  | Delete_object_tagging string "string option"
  | Calculate_etag string "string option" string "string option" "string option"
  | Calculate_etag_content "string option" "string option" string "string option" "string option"
  | Warn string
  | Sleep nat

type_synonym history = "event list"

record head =
  ETag :: string
  LastModified :: real

text \<open>
  The collaborators. Each S3 oracle is given the history so far and the arguments of the
  call, and answers with a value or an error. \<open>s3_call\<close> answers the operations whose result
  the module ignores. The helpers imported from \<^verbatim>\<open>module_utils\<close> and from Ansible
  (\<^verbatim>\<open>HAS_MD5\<close>, \<^verbatim>\<open>validate_bucket_name\<close>, \<^verbatim>\<open>calculate_etag\<close>,
  \<^verbatim>\<open>calculate_etag_content\<close>, \<^verbatim>\<open>module.boolean\<close>, \<^verbatim>\<open>get_aws_connection_info\<close>)
  are not among the sources and are parameters here:
  \<^item> \<open>validate_bucket_name b\<close> is \<open>Some msg\<close> when the helper calls \<^verbatim>\<open>fail_json(msg)\<close>;
  \<^item> \<open>boolean v\<close> is \<open>Inr b\<close> when \<^verbatim>\<open>module.boolean(v)\<close> returns \<open>b\<close>, and \<open>Inl msg\<close>
    when it calls \<^verbatim>\<open>fail_json(msg)\<close>;
  \<^item> \<open>calculate_etag\<close> returns the local fingerprint (or \<^verbatim>\<open>None\<close>) or stops the module;
  \<^item> \<open>standard_b64decode\<close> is \<open>None\<close> when \<^verbatim>\<open>base64.standard_b64decode\<close> raises.
  A paginator run is one call answering all its pages and, possibly, the error that ended it.
\<close>

record env =
  HAS_MD5 :: bool
  validate_bucket_name :: "string \<Rightarrow> string option"
  boolean :: "string \<Rightarrow> string + bool"
  region :: "string option"
  environ_S3_URL :: "string option"
  path_exists :: "string \<Rightarrow> bool"
  getmtime :: "string \<Rightarrow> real"
  standard_b64decode :: "string \<Rightarrow> string option"
  calculate_etag :: "history \<Rightarrow> string \<Rightarrow> string option \<Rightarrow> string \<Rightarrow> string option \<Rightarrow> string option \<Rightarrow> stop + string option"
  calculate_etag_content :: "history \<Rightarrow> string option \<Rightarrow> string option \<Rightarrow> string \<Rightarrow> string option \<Rightarrow> string option \<Rightarrow> stop + string option"
  s3_call :: "history \<Rightarrow> event \<Rightarrow> s3_error + unit"
  head_object :: "history \<Rightarrow> string \<Rightarrow> string option \<Rightarrow> string option \<Rightarrow> s3_error + head"
  get_object :: "history \<Rightarrow> string \<Rightarrow> string option \<Rightarrow> string option \<Rightarrow> s3_error + string"
  generate_presigned_url :: "history \<Rightarrow> string \<Rightarrow> string \<Rightarrow> string option \<Rightarrow> int \<Rightarrow> s3_error + string"
  get_object_tagging :: "history \<Rightarrow> string \<Rightarrow> string option \<Rightarrow> string option \<Rightarrow> s3_error + tagdict"
  list_objects_v2 :: "history \<Rightarrow> string \<Rightarrow> string option \<Rightarrow> string option \<Rightarrow> int option \<Rightarrow> string list list \<times> s3_error option"
  list_object_versions :: "history \<Rightarrow> string \<Rightarrow> (string \<times> string option) list list \<times> s3_error option"

section \<open>Control flow\<close>

type_synonym 'a prog = "history \<Rightarrow> (stop + 'a) \<times> history"

definition ret :: "'a \<Rightarrow> 'a prog" where
  "ret v = (\<lambda>h. (Inr v, h))"

definition stop_with :: "stop \<Rightarrow> 'a prog" where
  "stop_with s = (\<lambda>h. (Inl s, h))"

definition and_then :: "'a prog \<Rightarrow> ('a \<Rightarrow> 'b prog) \<Rightarrow> 'b prog" where
  "and_then m f = (\<lambda>h. case m h of (Inl s, h') \<Rightarrow> (Inl s, h') | (Inr v, h') \<Rightarrow> f v h')"

text \<open>\<^verbatim>\<open>try: m  except: handler  else: body\<close>. The handler sees exceptions of \<open>m\<close> only.\<close>

definition try_except_else :: "'a prog \<Rightarrow> (exn \<Rightarrow> 'b prog) \<Rightarrow> ('a \<Rightarrow> 'b prog) \<Rightarrow> 'b prog" where
  "try_except_else m handler body =
     (\<lambda>h. case m h of
             (Inl (Raise e), h') \<Rightarrow> handler e h'
           | (Inl s, h') \<Rightarrow> (Inl s, h')
           | (Inr v, h') \<Rightarrow> body v h')"

definition try_except :: "'a prog \<Rightarrow> (exn \<Rightarrow> 'a prog) \<Rightarrow> 'a prog" where
  "try_except m handler = try_except_else m handler ret"

definition log_event :: "event \<Rightarrow> unit prog" where
  "log_event ev = (\<lambda>h. (Inr (), h @ [ev]))"

text \<open>A call to the S3 client: the oracle answers on the history so far, the call is recorded.\<close>

definition remote :: "(history \<Rightarrow> s3_error + 'a) \<Rightarrow> event \<Rightarrow> 'a prog" where
  "remote oracle ev =
     (\<lambda>h. (case oracle h of Inl e \<Rightarrow> Inl (Raise (S3 e)) | Inr v \<Rightarrow> Inr v, h @ [ev]))"

definition s3_do :: "env \<Rightarrow> event \<Rightarrow> unit prog" where
  "s3_do s3 ev = remote (\<lambda>h. s3_call s3 h ev) ev"

definition exit_json :: "exit_result \<Rightarrow> 'a prog" where
  "exit_json r = stop_with (Exit_json r)"

definition fail_json :: "string \<Rightarrow> 'a prog" where
  "fail_json m = stop_with (Fail_json m)"

definition fail_json_aws :: "exn \<Rightarrow> string \<Rightarrow> 'a prog" where
  "fail_json_aws e m = stop_with (Fail_json_aws e m)"

definition raise :: "exn \<Rightarrow> 'a prog" where
  "raise e = stop_with (Raise e)"

definition no_result :: exit_result where
  "no_result = \<lparr>r_msg = None, r_changed = None, r_url = None, r_tags = None,
                 r_contents = None, r_s3_keys = None, r_expiry = None\<rparr>"

definition result :: "string \<Rightarrow> bool \<Rightarrow> exit_result" where
  "result m c = no_result\<lparr>r_msg := Some m, r_changed := Some c\<rparr>"

text \<open>Python truthiness of an optional string, and \<^verbatim>\<open>"%s" % x\<close>.\<close>

fun truthy :: "string option \<Rightarrow> bool" where
  "truthy None = False"
| "truthy (Some s) = (s \<noteq> [])"

fun str_of :: "string option \<Rightarrow> string" where
  "str_of None = ''None''"
| "str_of (Some s) = s"

text \<open>
  Modelled from the spec: \<^verbatim>\<open>is_boto3_error_code\<close> and \<^verbatim>\<open>is_boto3_error_message\<close>
  (\<^verbatim>\<open>module_utils/core.py\<close>) are not among the sources. The first selects the client errors
  whose code is one of the given codes (the spec's not-found and authorization signals), the
  second those whose message contains the given text.
\<close>

fun is_boto3_error_code :: "string list \<Rightarrow> exn \<Rightarrow> bool" where
  "is_boto3_error_code codes (S3 (ClientError code m)) = (code \<in> set codes)"
| "is_boto3_error_code codes _ = False"

fun contains_text :: "string \<Rightarrow> string \<Rightarrow> bool" where
  "contains_text sub [] = (sub = [])"
| "contains_text sub (c # cs) = (take (length sub) (c # cs) = sub \<or> contains_text sub cs)"

fun is_boto3_error_message :: "string \<Rightarrow> exn \<Rightarrow> bool" where
  "is_boto3_error_message t (S3 (ClientError code m)) = contains_text t m"
| "is_boto3_error_message t _ = False"

text \<open>\<^verbatim>\<open>except (botocore.exceptions.BotoCoreError, botocore.exceptions.ClientError)\<close>\<close>

fun is_botocore :: "exn \<Rightarrow> bool" where
  "is_botocore (S3 SSLError) = False"
| "is_botocore (S3 e) = True"
| "is_botocore _ = False"

definition IGNORE_S3_DROP_IN_EXCEPTIONS :: "string list" where
  "IGNORE_S3_DROP_IN_EXCEPTIONS = [''XNotImplemented'', ''NotImplemented'']"

text \<open>\<^verbatim>\<open>VersionId\<close> is passed only \<^verbatim>\<open>if version:\<close>.\<close>

definition version_arg :: "string option \<Rightarrow> string option" where
  "version_arg ver = (if truthy ver then ver else None)"

text \<open>A helper of \<^verbatim>\<open>module_utils\<close> that may stop the module; its call is recorded.\<close>

definition helper :: "(history \<Rightarrow> stop + 'a) \<Rightarrow> event \<Rightarrow> 'a prog" where
  "helper oracle ev = (\<lambda>h. (oracle h, h @ [ev]))"

fun for_each :: "'a list \<Rightarrow> ('a \<Rightarrow> unit prog) \<Rightarrow> unit prog" where
  "for_each [] body = ret ()"
| "for_each (x # xs) body = and_then (body x) (\<lambda>_. for_each xs body)"

text \<open>A loop over a paginator: the body runs on every page, then the paginator's error is raised.\<close>

definition for_pages :: "'a list list \<times> s3_error option \<Rightarrow> ('a list \<Rightarrow> unit prog) \<Rightarrow> unit prog" where
  "for_pages gen body =
     and_then (for_each (fst gen) body)
       (\<lambda>_. case snd gen of None \<Rightarrow> ret () | Some e \<Rightarrow> raise (S3 e))"

section \<open>The functions of the module\<close>

text \<open>\<^verbatim>\<open>s3.head_object(Bucket=bucket, Key=obj[, VersionId=version])\<close>\<close>

definition s3_head_object :: "env \<Rightarrow> string \<Rightarrow> string option \<Rightarrow> string option \<Rightarrow> head prog" where
  "s3_head_object s3 bkt obj ver =
     remote (\<lambda>h. head_object s3 h bkt obj (version_arg ver)) (Head_object bkt obj (version_arg ver))"

definition key_check :: "env \<Rightarrow> string \<Rightarrow> string option \<Rightarrow> string option \<Rightarrow> bool \<Rightarrow> bool prog" where
  "key_check s3 bkt obj ver validate =
     try_except_else (s3_head_object s3 bkt obj ver)
       (\<lambda>e. if is_boto3_error_code [''404''] e then ret False
            else if is_boto3_error_code [''403''] e then
              (if validate
               then fail_json_aws e (''Failed while looking up object (during key check) '' @ str_of obj @ ''.'')
               else ret True)
            else if is_botocore e
            then fail_json_aws e (''Failed while looking up object (during key check) '' @ str_of obj @ ''.'')
            else raise e)
       (\<lambda>_. ret True)"

text \<open>
  The response of \<^verbatim>\<open>head_object\<close> is a non-empty dictionary, so the branch
  \<^verbatim>\<open>if not key_check: return None\<close> of \<^verbatim>\<open>get_etag\<close> and of
  \<^verbatim>\<open>get_s3_last_modified_timestamp\<close> is never taken.
\<close>

definition get_etag :: "env \<Rightarrow> string \<Rightarrow> string option \<Rightarrow> string option \<Rightarrow> string option prog" where
  "get_etag s3 bkt obj ver =
     try_except
       (and_then (s3_head_object s3 bkt obj ver) (\<lambda>key_check. ret (Some (ETag key_check))))
       (\<lambda>e. if is_boto3_error_code [''404''] e then ret None else raise e)"

definition etag_compare ::
  "env \<Rightarrow> string \<Rightarrow> string option \<Rightarrow> string option \<Rightarrow> string option \<Rightarrow> string option \<Rightarrow> bool prog" where
  "etag_compare s3 bkt obj ver local_file cont =
     and_then (get_etag s3 bkt obj ver) (\<lambda>s3_etag.
     and_then
       (case local_file of
          Some f \<Rightarrow>
            helper (\<lambda>h. calculate_etag s3 h f s3_etag bkt obj ver) (Calculate_etag f s3_etag bkt obj ver)
        | None \<Rightarrow>
            helper (\<lambda>h. calculate_etag_content s3 h cont s3_etag bkt obj ver)
              (Calculate_etag_content cont s3_etag bkt obj ver))
       (\<lambda>local_etag. ret (s3_etag = local_etag)))"

definition get_s3_last_modified_timestamp ::
  "env \<Rightarrow> string \<Rightarrow> string option \<Rightarrow> string option \<Rightarrow> real prog" where
  "get_s3_last_modified_timestamp s3 bkt obj ver =
     and_then (s3_head_object s3 bkt obj ver) (\<lambda>key_check. ret (LastModified key_check))"

definition is_local_object_latest ::
  "env \<Rightarrow> string \<Rightarrow> string option \<Rightarrow> string option \<Rightarrow> string \<Rightarrow> bool prog" where
  "is_local_object_latest s3 bkt obj ver local_file =
     and_then (get_s3_last_modified_timestamp s3 bkt obj ver) (\<lambda>s3_last_modified.
       if \<not> path_exists s3 local_file then ret False
       else ret (s3_last_modified \<le> getmtime s3 local_file))"

definition bucket_check :: "env \<Rightarrow> string \<Rightarrow> bool \<Rightarrow> bool prog" where
  "bucket_check s3 bkt validate =
     try_except_else (s3_do s3 (Head_bucket bkt))
       (\<lambda>e. if is_boto3_error_code [''404''] e then ret False
            else if is_boto3_error_code [''403''] e then
              (if validate
               then fail_json_aws e (''Failed while looking up bucket (during bucket_check) '' @ bkt @ ''.'')
               else ret True)
            else if e = S3 EndpointConnectionError then fail_json_aws e ''Invalid endpoint provided''
            else if is_botocore e
            then fail_json_aws e (''Failed while looking up bucket (during bucket_check) '' @ bkt @ ''.'')
            else raise e)
       (\<lambda>_. ret True)"

definition create_bucket :: "params \<Rightarrow> env \<Rightarrow> string \<Rightarrow> string option \<Rightarrow> bool option prog" where
  "create_bucket modl s3 bkt location =
     (if check_mode modl
      then exit_json (result ''CREATE operation skipped - running in check mode'' True)
      else
        and_then
          (try_except
             (and_then
                (s3_do s3 (Create_bucket bkt
                   (if location \<noteq> Some ''us-east-1'' \<and> location \<noteq> None then location else None)))
                (\<lambda>_. and_then
                   (if permission modl \<noteq> [] then s3_do s3 (Wait_bucket_exists bkt) else ret ())
                   (\<lambda>_. for_each (permission modl) (\<lambda>acl. s3_do s3 (Put_bucket_acl acl bkt)))))
             (\<lambda>e. if is_boto3_error_code IGNORE_S3_DROP_IN_EXCEPTIONS e
                  then log_event (Warn ''PutBucketAcl is not implemented by your storage provider. Set the permission parameters to the empty list to avoid this warning'')
                  else if is_botocore e
                  then fail_json_aws e ''Failed while creating bucket or setting acl (check that you have CreateBucket and PutBucketAcl permission).''
                  else raise e))
          (\<lambda>_. ret (if bkt \<noteq> [] then Some True else None)))"

definition paginated_list ::
  "env \<Rightarrow> string \<Rightarrow> string option \<Rightarrow> string option \<Rightarrow> int option \<Rightarrow> (string list list \<times> s3_error option) prog" where
  "paginated_list s3 bkt pfx mrk maxk =
     (\<lambda>h. (Inr (list_objects_v2 s3 h bkt pfx mrk maxk), h @ [List_objects_v2 bkt pfx mrk maxk]))"

text \<open>
  \<^verbatim>\<open>for keys in paginated_versioned_list_with_fallback(s3, Bucket=bucket): body\<close>. The
  handler of the generator sees the paginator's errors only, not those of the loop body.
\<close>

definition paginated_versioned_list_with_fallback ::
  "env \<Rightarrow> string \<Rightarrow> ((string \<times> string option) list \<Rightarrow> unit prog) \<Rightarrow> unit prog" where
  "paginated_versioned_list_with_fallback s3 bkt body =
     and_then (\<lambda>h. (Inr (list_object_versions s3 h bkt), h @ [List_object_versions bkt])) (\<lambda>gen.
     and_then (for_each (fst gen) body) (\<lambda>_.
       case snd gen of
         None \<Rightarrow> ret ()
       | Some e \<Rightarrow>
           if is_boto3_error_code (IGNORE_S3_DROP_IN_EXCEPTIONS @ [''AccessDenied'']) (S3 e)
           then and_then (paginated_list s3 bkt None None None) (\<lambda>gen2.
                  for_pages (map (map (\<lambda>k. (k, None))) (fst gen2), snd gen2) body)
           else raise (S3 e)))"

definition list_keys ::
  "env \<Rightarrow> string \<Rightarrow> string \<Rightarrow> string \<Rightarrow> int \<Rightarrow> unit prog" where
  "list_keys s3 bkt pfx mrk maxk =
     try_except
       (and_then (paginated_list s3 bkt (Some pfx) (Some mrk) (Some maxk)) (\<lambda>gen.
          case snd gen of
            Some e \<Rightarrow> raise (S3 e)
          | None \<Rightarrow> exit_json (no_result\<lparr>r_msg := Some ''LIST operation complete'',
                                         r_s3_keys := Some (concat (fst gen))\<rparr>)))
       (\<lambda>e. if is_botocore e
            then fail_json_aws e (''Failed while listing the keys in the bucket '' @ bkt)
            else raise e)"

definition delete_bucket :: "params \<Rightarrow> env \<Rightarrow> string \<Rightarrow> bool prog" where
  "delete_bucket modl s3 bkt =
     (if check_mode modl
      then exit_json (result ''DELETE operation skipped - running in check mode'' True)
      else
        try_except
          (and_then (bucket_check s3 bkt True) (\<lambda>exists.
             if \<not> exists then ret False
             else
               and_then
                 (paginated_versioned_list_with_fallback s3 bkt
                    (\<lambda>keys. if keys \<noteq> [] then s3_do s3 (Delete_objects bkt keys) else ret ()))
                 (\<lambda>_. and_then (s3_do s3 (Delete_bucket bkt)) (\<lambda>_. ret True))))
          (\<lambda>e. if is_boto3_error_code [''NoSuchBucket''] e then ret False
               else if is_botocore e then fail_json_aws e (''Failed while deleting bucket '' @ bkt @ ''.'')
               else raise e))"

definition delete_key :: "params \<Rightarrow> env \<Rightarrow> string \<Rightarrow> string option \<Rightarrow> unit prog" where
  "delete_key modl s3 bkt obj =
     (if check_mode modl
      then exit_json (result ''DELETE operation skipped - running in check mode'' True)
      else
        try_except
          (and_then (s3_do s3 (Delete_object bkt obj)) (\<lambda>_.
             exit_json (result (''Object deleted from bucket '' @ bkt @ ''.'') True)))
          (\<lambda>e. if is_botocore e
               then fail_json_aws e (''Failed while trying to delete '' @ str_of obj @ ''.'')
               else raise e))"

definition path_check :: "env \<Rightarrow> string \<Rightarrow> bool" where
  "path_check s3 path = (if path_exists s3 path then True else False)"

subsection \<open>Tags\<close>

text \<open>
  \<^verbatim>\<open>boto3_tag_list_to_ansible_dict\<close> and \<^verbatim>\<open>ansible_dict_to_boto3_tag_list\<close> convert
  between the tag list of the API and a dictionary; the oracle answers with the dictionary.
\<close>

definition get_current_object_tags_dict ::
  "env \<Rightarrow> string \<Rightarrow> string option \<Rightarrow> string option \<Rightarrow> tagdict prog" where
  "get_current_object_tags_dict s3 bkt obj ver =
     try_except
       (remote (\<lambda>h. get_object_tagging s3 h bkt obj (version_arg ver))
          (Get_object_tagging bkt obj (version_arg ver)))
       (\<lambda>e. if is_boto3_error_code [''NoSuchTagSet''] e then ret fmempty
            else if is_boto3_error_code [''NoSuchTagSetError''] e then ret fmempty
            else raise e)"

text \<open>
  \<^verbatim>\<open>put_object_tagging\<close> and \<^verbatim>\<open>delete_object_tagging\<close> are wrapped in
  \<^verbatim>\<open>AWSRetry.jittered_backoff\<close> (\<^verbatim>\<open>module_utils/ec2.py\<close>, not among the sources); one
  call of the wrapped function is one event, answered with its final outcome.
\<close>

definition put_object_tagging :: "env \<Rightarrow> string \<Rightarrow> string option \<Rightarrow> tagdict \<Rightarrow> unit prog" where
  "put_object_tagging s3 bkt obj tgs = s3_do s3 (Put_object_tagging bkt obj tgs)"

definition delete_object_tagging :: "env \<Rightarrow> string \<Rightarrow> string option \<Rightarrow> unit prog" where
  "delete_object_tagging s3 bkt obj = s3_do s3 (Delete_object_tagging bkt obj)"

text \<open>
  The body of \<^verbatim>\<open>for dummy in range(0, 12)\<close>, with the number of rounds left; when none is
  left the statement after the loop runs.
\<close>

fun wait_tags_loop ::
  "nat \<Rightarrow> env \<Rightarrow> string \<Rightarrow> string option \<Rightarrow> tagdict \<Rightarrow> string option \<Rightarrow> tagdict prog" where
  "wait_tags_loop 0 s3 bkt obj expected_tags_dict ver =
     fail_json ''Object tags failed to apply in the expected time.''"
| "wait_tags_loop (Suc n) s3 bkt obj expected_tags_dict ver =
     and_then
       (try_except (get_current_object_tags_dict s3 bkt obj ver)
          (\<lambda>e. if is_botocore e then fail_json_aws e ''Failed to get object tags.'' else raise e))
       (\<lambda>current_tags_dict.
          if current_tags_dict \<noteq> expected_tags_dict
          then and_then (log_event (Sleep 5))
                 (\<lambda>_. wait_tags_loop n s3 bkt obj expected_tags_dict ver)
          else ret current_tags_dict)"

definition wait_tags_are_applied ::
  "env \<Rightarrow> string \<Rightarrow> string option \<Rightarrow> tagdict \<Rightarrow> string option \<Rightarrow> tagdict prog" where
  "wait_tags_are_applied s3 bkt obj expected_tags_dict ver =
     wait_tags_loop 12 s3 bkt obj expected_tags_dict ver"

text \<open>
  In \<^verbatim>\<open>ensure_tags\<close> the handler for the drop-in exceptions only warns; the
  \<^verbatim>\<open>return current_tags_dict, changed\<close> after it reads a variable that was never
  assigned.
\<close>

definition ensure_tags :: "env \<Rightarrow> params \<Rightarrow> string \<Rightarrow> string option \<Rightarrow> (tagdict \<times> bool) prog" where
  "ensure_tags client modl bkt obj =
     try_except_else (get_current_object_tags_dict client bkt obj None)
       (\<lambda>e. if is_boto3_error_code IGNORE_S3_DROP_IN_EXCEPTIONS e
            then and_then
                   (log_event (Warn ''GetObjectTagging is not implemented by your storage provider. Set the permission parameters to the empty list to avoid this warning.''))
                   (\<lambda>_. raise UnboundLocalError)
            else if is_botocore e then fail_json_aws e ''Failed to get object tags.''
            else raise e)
       (\<lambda>current_tags_dict.
          case tags modl of
            None \<Rightarrow> ret (current_tags_dict, False)
          | Some desired \<Rightarrow>
              let tgs = (if \<not> purge_tags modl then fmadd current_tags_dict desired else desired) in
              if current_tags_dict \<noteq> tgs
              then
                and_then
                  (if tgs \<noteq> fmempty
                   then try_except (put_object_tagging client bkt obj tgs)
                          (\<lambda>e. if is_botocore e then fail_json_aws e ''Failed to update object tags.''
                               else raise e)
                   else if purge_tags modl
                   then try_except (delete_object_tagging client bkt obj)
                          (\<lambda>e. if is_botocore e then fail_json_aws e ''Failed to delete object tags.''
                               else raise e)
                   else ret ())
                  (\<lambda>_. and_then (wait_tags_are_applied client bkt obj tgs None)
                          (\<lambda>current_tags_dict. ret (current_tags_dict, True)))
              else ret (current_tags_dict, False))"

subsection \<open>Transfers and URLs\<close>

definition put_download_url :: "env \<Rightarrow> string \<Rightarrow> string option \<Rightarrow> int \<Rightarrow> string prog" where
  "put_download_url s3 bkt obj expy =
     try_except
       (remote (\<lambda>h. generate_presigned_url s3 h ''put_object'' bkt obj expy)
          (Generate_presigned_url ''put_object'' bkt obj expy))
       (\<lambda>e. if is_botocore e then fail_json_aws e ''Unable to generate presigned URL'' else raise e)"

definition get_download_url ::
  "env \<Rightarrow> string \<Rightarrow> string option \<Rightarrow> int \<Rightarrow> tagdict option \<Rightarrow> bool \<Rightarrow> unit prog" where
  "get_download_url s3 bkt obj expy tgs chg =
     try_except
       (and_then
          (remote (\<lambda>h. generate_presigned_url s3 h ''get_object'' bkt obj expy)
             (Generate_presigned_url ''get_object'' bkt obj expy))
          (\<lambda>u. exit_json (no_result\<lparr>r_msg := Some ''Download url:'', r_url := Some u, r_tags := tgs,
                                    r_expiry := Some expy, r_changed := Some chg\<rparr>)))
       (\<lambda>e. if is_botocore e then fail_json_aws e ''Failed while getting download url.'' else raise e)"

definition create_dirkey :: "params \<Rightarrow> env \<Rightarrow> string \<Rightarrow> string option \<Rightarrow> int \<Rightarrow> unit prog" where
  "create_dirkey modl s3 bkt obj expy =
     (if check_mode modl
      then exit_json (result ''PUT operation skipped - running in check mode'' True)
      else
        and_then
          (try_except
             (and_then (s3_do s3 (Put_object bkt obj)) (\<lambda>_.
                for_each (permission modl) (\<lambda>acl. s3_do s3 (Put_object_acl acl bkt obj))))
             (\<lambda>e. if is_boto3_error_code IGNORE_S3_DROP_IN_EXCEPTIONS e
                  then log_event (Warn ''PutObjectAcl is not implemented by your storage provider. Set the permissions parameters to the empty list to avoid this warning'')
                  else if is_botocore e
                  then fail_json_aws e (''Failed while creating object '' @ str_of obj @ ''.'')
                  else raise e))
          (\<lambda>_. and_then (ensure_tags s3 modl bkt obj) (\<lambda>(tgs, chg).
           and_then (put_download_url s3 bkt obj expy) (\<lambda>_.
           and_then (put_download_url s3 bkt obj expy) (\<lambda>u.
             exit_json (no_result\<lparr>r_msg := Some (''Virtual directory '' @ str_of obj @ '' created in bucket '' @ bkt),
                                   r_url := Some u, r_tags := Some tgs, r_changed := Some True\<rparr>))))))"

definition upload_s3file ::
  "params \<Rightarrow> env \<Rightarrow> string \<Rightarrow> string option \<Rightarrow> int \<Rightarrow> string option \<Rightarrow> string option \<Rightarrow> unit prog" where
  "upload_s3file modl s3 bkt obj expy srcf cont =
     (if check_mode modl
      then exit_json (result ''PUT operation skipped - running in check mode'' True)
      else
        and_then
          (try_except
             (case srcf of
                Some f \<Rightarrow> s3_do s3 (Upload_file f bkt obj)
              | None \<Rightarrow> s3_do s3 (Upload_fileobj cont bkt obj))
             (\<lambda>e. if is_botocore e then fail_json_aws e ''Unable to complete PUT operation.''
                  else raise e))
          (\<lambda>_. and_then
             (try_except
                (for_each (permission modl) (\<lambda>acl. s3_do s3 (Put_object_acl acl bkt obj)))
                (\<lambda>e. if is_boto3_error_code IGNORE_S3_DROP_IN_EXCEPTIONS e
                     then log_event (Warn ''PutObjectAcl is not implemented by your storage provider. Set the permission parameters to the empty list to avoid this warning'')
                     else if is_botocore e then fail_json_aws e ''Unable to set object ACL''
                     else raise e))
             (\<lambda>_. and_then (ensure_tags s3 modl bkt obj) (\<lambda>(tgs, chg).
                   and_then (put_download_url s3 bkt obj expy) (\<lambda>u.
                     exit_json (no_result\<lparr>r_msg := Some ''PUT operation complete'', r_url := Some u,
                                           r_tags := Some tgs, r_changed := Some True\<rparr>))))))"

text \<open>
  The loop \<^verbatim>\<open>for x in range(0, retries + 1)\<close> of \<^verbatim>\<open>download_s3file\<close>: \<open>x\<close> is the loop
  variable and the first argument the number of rounds left. An \<^verbatim>\<open>SSLError\<close> is reported
  through \<^verbatim>\<open>fail_json_aws\<close> with its own message.
\<close>

fun download_loop ::
  "nat \<Rightarrow> int \<Rightarrow> env \<Rightarrow> string \<Rightarrow> string option \<Rightarrow> string option \<Rightarrow> int \<Rightarrow> string option \<Rightarrow> unit prog" where
  "download_loop 0 x s3 bkt obj dst retr ver = ret ()"
| "download_loop (Suc n) x s3 bkt obj dst retr ver =
     and_then
       (try_except
          (and_then (s3_do s3 (Download_file bkt obj dst (version_arg ver))) (\<lambda>_.
             exit_json (result ''GET operation complete'' True)))
          (\<lambda>e. if is_botocore e
               then (if x \<ge> retr
                     then fail_json_aws e (''Failed while downloading '' @ str_of obj @ ''.'')
                     else ret ())
               else if e = S3 SSLError
               then (if x \<ge> retr then fail_json_aws e ''s3 download failed'' else ret ())
               else raise e))
       (\<lambda>_. download_loop n (x + 1) s3 bkt obj dst retr ver)"

definition download_s3file ::
  "params \<Rightarrow> env \<Rightarrow> string \<Rightarrow> string option \<Rightarrow> string option \<Rightarrow> int \<Rightarrow> string option \<Rightarrow> unit prog" where
  "download_s3file modl s3 bkt obj dst retr ver =
     (if check_mode modl
      then exit_json (result ''GET operation skipped - running in check mode'' True)
      else
        and_then
          (try_except
             (and_then (remote (\<lambda>h. get_object s3 h bkt obj (version_arg ver))
                          (Get_object bkt obj (version_arg ver)))
                (\<lambda>_. ret ()))
             (\<lambda>e. if is_boto3_error_code [''404'', ''403''] e
                  then fail_json_aws e (''Could not find the key '' @ str_of obj @ ''.'')
                  else if is_boto3_error_message ''require AWS Signature Version 4'' e
                  then raise Sigv4Required
                  else if is_boto3_error_code [''InvalidArgument''] e
                  then fail_json_aws e (''Could not find the key '' @ str_of obj @ ''.'')
                  else if is_botocore e
                  then fail_json_aws e (''Could not find the key '' @ str_of obj @ ''.'')
                  else raise e))
          (\<lambda>_. download_loop (nat (retr + 1)) 0 s3 bkt obj dst retr ver))"

definition download_s3str ::
  "params \<Rightarrow> env \<Rightarrow> string \<Rightarrow> string option \<Rightarrow> string option \<Rightarrow> unit prog" where
  "download_s3str modl s3 bkt obj ver =
     (if check_mode modl
      then exit_json (result ''GET operation skipped - running in check mode'' True)
      else
        try_except
          (and_then (remote (\<lambda>h. get_object s3 h bkt obj (version_arg ver))
                       (Get_object bkt obj (version_arg ver)))
             (\<lambda>contents. exit_json (no_result\<lparr>r_msg := Some ''GET operation complete'',
                                               r_contents := Some contents, r_changed := Some True\<rparr>)))
          (\<lambda>e. if is_boto3_error_message ''require AWS Signature Version 4'' e
               then raise Sigv4Required
               else if is_boto3_error_code [''InvalidArgument''] e
               then fail_json_aws e (''Failed while getting contents of object '' @ str_of obj @ '' as a string.'')
               else if is_botocore e
               then fail_json_aws e (''Failed while getting contents of object '' @ str_of obj @ '' as a string.'')
               else raise e))"

definition copy_object_to_bucket ::
  "params \<Rightarrow> env \<Rightarrow> string \<Rightarrow> string option \<Rightarrow> bool \<Rightarrow> string option \<Rightarrow> unit prog" where
  "copy_object_to_bucket modl s3 bkt obj validate d_etag =
     (if check_mode modl
      then exit_json (result ''COPY operation skipped - running in check mode'' True)
      else
        try_except
          (case copy_src modl of
             None \<Rightarrow> raise AttributeError
           | Some bucketsrc \<Rightarrow>
               and_then
                 (key_check s3 (src_bucket bucketsrc) (Some (src_object bucketsrc)) (version_id bucketsrc) validate)
                 (\<lambda>found.
                    if \<not> found
                    then exit_json (result (''Key '' @ src_object bucketsrc @ '' does not exist in bucket ''
                                             @ src_bucket bucketsrc @ ''.'') False)
                    else
                      and_then
                        (get_etag s3 (src_bucket bucketsrc) (Some (src_object bucketsrc)) (version_id bucketsrc))
                        (\<lambda>s_etag.
                           if s_etag = d_etag
                           then and_then (ensure_tags s3 modl bkt obj) (\<lambda>(tgs, chg).
                                  if \<not> chg
                                  then exit_json (result ''ETag from source and destination are the same'' False)
                                  else exit_json (no_result\<lparr>r_msg := Some ''tags successfully updated.'',
                                                            r_changed := Some chg, r_tags := Some tgs\<rparr>))
                           else
                             and_then
                               (s3_do s3 (Copy_object bkt obj (src_bucket bucketsrc) (src_object bucketsrc)
                                            (version_id bucketsrc)))
                               (\<lambda>_. and_then
                                  (for_each (permission modl) (\<lambda>acl. s3_do s3 (Put_object_acl acl bkt obj)))
                                  (\<lambda>_. and_then (ensure_tags s3 modl bkt obj) (\<lambda>(tgs, chg).
                                     exit_json (no_result\<lparr>r_msg := Some (''Object copied from bucket ''
                                                              @ src_bucket bucketsrc @ '' to bucket '' @ bkt @ ''.''),
                                                            r_tags := Some tgs, r_changed := Some True\<rparr>)))))))
          (\<lambda>e. if is_boto3_error_code IGNORE_S3_DROP_IN_EXCEPTIONS e
               then log_event (Warn ''PutObjectAcl is not implemented by your storage provider. Set the permissions parameters to the empty list to avoid this warning'')
               else if is_botocore e
               then fail_json_aws e (''Failed while copying object '' @ str_of obj @ '' from bucket None.'')
               else raise e))"

text \<open>Building the client is recorded with its \<^verbatim>\<open>sig_4\<close> flag.\<close>

definition get_s3_connection :: "bool \<Rightarrow> unit prog" where
  "get_s3_connection sig_4 = log_event (Connect sig_4)"

section \<open>The entry point\<close>

definition object_canned_acl :: "string list" where
  "object_canned_acl = [''private'', ''public-read'', ''public-read-write'', ''aws-exec-read'',
     ''authenticated-read'', ''bucket-owner-read'', ''bucket-owner-full-control'']"

definition bucket_canned_acl :: "string list" where
  "bucket_canned_acl = [''private'', ''public-read'', ''public-read-write'', ''authenticated-read'']"

text \<open>\<^verbatim>\<open>if obj.startswith('/'): obj = obj[1:]\<close>\<close>

fun strip_leading_slash :: "string \<Rightarrow> string" where
  "strip_leading_slash [] = []"
| "strip_leading_slash (c # cs) = (if c = CHR ''/'' then cs else c # cs)"

text \<open>The items of \<^verbatim>\<open>"%s" % a_list_of_strings\<close>, between the brackets.\<close>

fun py_repr_items :: "string list \<Rightarrow> string" where
  "py_repr_items [] = []"
| "py_repr_items [x] = [CHR 0x27] @ x @ [CHR 0x27]"
| "py_repr_items (x # xs) = [CHR 0x27] @ x @ [CHR 0x27] @ '', '' @ py_repr_items xs"

text \<open>The local variables of \<^verbatim>\<open>main\<close> that the mode blocks read.\<close>

record locals =
  l_overwrite :: string
  l_location :: string
  l_obj :: "string option"
  l_validate :: bool
  l_bucket_acl :: "string list"
  l_object_acl :: "string list"
  l_bucketrtn :: bool

text \<open>
  The values \<^verbatim>\<open>main\<close> computes before it builds the client: the overwrite policy
  (a value outside the four names goes through \<^verbatim>\<open>module.boolean\<close>), the location, the
  object key without its leading slash, and the endpoint URL.
\<close>

definition overwrite_policy :: "params \<Rightarrow> env \<Rightarrow> string prog" where
  "overwrite_policy modl s3 =
     (if overwrite modl \<notin> set [''always'', ''never'', ''different'', ''latest'']
      then (case boolean s3 (overwrite modl) of
              Inl m \<Rightarrow> fail_json m
            | Inr b \<Rightarrow> ret (if b then ''always'' else ''never''))
      else ret (overwrite modl))"

definition location_of :: "env \<Rightarrow> string" where
  "location_of s3 =
     (case region s3 of
        None \<Rightarrow> ''us-east-1''
      | Some r \<Rightarrow> if r = ''us-east-1'' \<or> r = [] then ''us-east-1'' else r)"

definition object_key :: "params \<Rightarrow> string option" where
  "object_key modl =
     (if truthy (object modl) then map_option strip_leading_slash (object modl)
      else object modl)"

definition endpoint_url :: "params \<Rightarrow> env \<Rightarrow> string option" where
  "endpoint_url modl s3 =
     (if \<not> truthy (s3_url modl) \<and> environ_S3_URL s3 \<noteq> None
      then environ_S3_URL s3 else s3_url modl)"

text \<open>\<^verbatim>\<open>main\<close> from \<^verbatim>\<open>validate_bucket_name\<close> to the check of the source bucket.\<close>

definition main_setup :: "params \<Rightarrow> env \<Rightarrow> locals prog" where
  "main_setup modl s3 =
     and_then
       (case validate_bucket_name s3 (bucket modl) of Some m \<Rightarrow> fail_json m | None \<Rightarrow> ret ())
       (\<lambda>_.
     and_then (overwrite_policy modl s3) (\<lambda>ow.
     if ow = ''different'' \<and> \<not> HAS_MD5 s3
     then fail_json ''overwrite=different is unavailable: ETag calculation requires MD5 support''
     else if truthy (object_key modl) \<and> mode modl = Delete
     then fail_json ''Parameter obj cannot be used with mode=delete''
     else if dualstack modl
             \<and> (case endpoint_url modl s3 of
                   None \<Rightarrow> False
                 | Some u \<Rightarrow> \<not> contains_text ''amazonaws.com'' u)
     then fail_json ''dualstack only applies to AWS S3''
     else if rgw modl \<and> \<not> truthy (endpoint_url modl s3)
     then fail_json ''rgw flavour requires s3_url''
     else
       and_then (get_s3_connection False) (\<lambda>_.
         let validate = \<not> ignore_nonexistent_bucket modl;
             bucket_acl = filter (\<lambda>acl. acl \<in> set bucket_canned_acl) (permission modl);
             object_acl = filter (\<lambda>acl. acl \<in> set object_canned_acl) (permission modl);
             error_acl = filter (\<lambda>acl. acl \<notin> set bucket_canned_acl \<and> acl \<notin> set object_canned_acl)
                           (permission modl)
         in
         if error_acl \<noteq> []
         then fail_json (''Unknown permission specified: ['' @ py_repr_items error_acl @ '']'')
         else
           and_then (bucket_check s3 (bucket modl) validate) (\<lambda>bucketrtn.
             if validate \<and> mode modl \<notin> {Create, Put, Delete, Copy} \<and> \<not> bucketrtn
             then fail_json ''Source bucket cannot be found.''
             else ret \<lparr>l_overwrite = ow, l_location = location_of s3, l_obj = object_key modl,
                        l_validate = validate, l_bucket_acl = bucket_acl,
                        l_object_acl = object_acl, l_bucketrtn = bucketrtn\<rparr>))))"

text \<open>
  \<^verbatim>\<open>try: download(...) except Sigv4Required: s3 = get_s3_connection(..., sig_4=True); download(...)\<close>
\<close>

definition retry_with_sigv4 :: "unit prog \<Rightarrow> unit prog" where
  "retry_with_sigv4 download =
     try_except download
       (\<lambda>e. if e = Sigv4Required then and_then (get_s3_connection True) (\<lambda>_. download) else raise e)"

text \<open>The block \<^verbatim>\<open>if mode == 'get'\<close>.\<close>

definition main_get :: "params \<Rightarrow> env \<Rightarrow> locals \<Rightarrow> unit prog" where
  "main_get modl s3 l =
     and_then (key_check s3 (bucket modl) (l_obj l) (version modl) (l_validate l)) (\<lambda>keyrtn.
       if keyrtn = False
       then (if truthy (version modl)
             then fail_json (''Key '' @ str_of (l_obj l) @ '' with version id '' @ str_of (version modl)
                             @ '' does not exist.'')
             else fail_json (''Key '' @ str_of (l_obj l) @ '' does not exist.''))
       else
         and_then
           (case dest modl of
              None \<Rightarrow> ret ()
            | Some dst \<Rightarrow>
                if dst \<noteq> [] \<and> path_check s3 dst \<and> l_overwrite l \<noteq> ''always''
                then
                  (if l_overwrite l = ''never''
                   then exit_json (result ''Local object already exists and overwrite is disabled.'' False)
                   else
                     and_then
                       (if l_overwrite l = ''different''
                        then and_then
                               (etag_compare s3 (bucket modl) (l_obj l) (version modl) (Some dst) None)
                               (\<lambda>same. if same
                                  then exit_json (result ''Local and remote object are identical, ignoring. Use overwrite=always parameter to force.'' False)
                                  else ret ())
                        else ret ())
                       (\<lambda>_.
                          if l_overwrite l = ''latest''
                          then and_then
                                 (is_local_object_latest s3 (bucket modl) (l_obj l) (version modl) dst)
                                 (\<lambda>latest. if latest
                                    then exit_json (result ''Local object is latest, ignoreing. Use overwrite=always parameter to force.'' False)
                                    else ret ())
                          else ret ()))
                else ret ())
           (\<lambda>_. retry_with_sigv4
                   (download_s3file modl s3 (bucket modl) (l_obj l) (dest modl) (retries modl) (version modl))))"

text \<open>The block \<^verbatim>\<open>if mode == 'put'\<close>.\<close>

definition main_put :: "params \<Rightarrow> env \<Rightarrow> locals \<Rightarrow> unit prog" where
  "main_put modl s3 l =
     (if content modl = None \<and> content_base64 modl = None \<and> src modl = None
      then fail_json ''Either content, content_base64 or src must be specified for PUT operations''
      else if (case src modl of None \<Rightarrow> False | Some f \<Rightarrow> \<not> path_check s3 f)
      then fail_json (''Local object '' @ [CHR 0x22] @ str_of (src modl) @ [CHR 0x22]
                      @ '' does not exist for PUT operation'')
      else
        and_then
          (if l_bucketrtn l
           then and_then (key_check s3 (bucket modl) (l_obj l) (version modl) (l_validate l))
                  (\<lambda>k. ret (Some k))
           else and_then
                  (create_bucket (modl\<lparr>permission := l_bucket_acl l\<rparr>) s3 (bucket modl) (Some (l_location l)))
                  (\<lambda>_. ret None))
          (\<lambda>keyrtn.
        and_then
          (case content_base64 modl of
             None \<Rightarrow> ret (content modl)
           | Some c64 \<Rightarrow>
               (case standard_b64decode s3 c64 of
                  None \<Rightarrow> raise Binascii_Error
                | Some b \<Rightarrow> ret (Some b)))
          (\<lambda>bincontent.
        and_then
          (if keyrtn = Some True \<and> l_overwrite l \<noteq> ''always''
           then and_then
                  (if l_overwrite l = ''never'' then ret True
                   else etag_compare s3 (bucket modl) (l_obj l) (version modl) (src modl) bincontent)
                  (\<lambda>skip.
                     if skip
                     then and_then (ensure_tags s3 modl (bucket modl) (l_obj l)) (\<lambda>(tgs, tags_update).
                            get_download_url s3 (bucket modl) (l_obj l) (expiry modl) (Some tgs) tags_update)
                     else ret ())
           else ret ())
          (\<lambda>_. upload_s3file (modl\<lparr>permission := l_object_acl l\<rparr>) s3 (bucket modl) (l_obj l)
                  (expiry modl) (src modl) bincontent))))"

text \<open>The blocks \<^verbatim>\<open>if mode == 'delobj'\<close>, \<^verbatim>\<open>'delete'\<close> and \<^verbatim>\<open>'list'\<close>.\<close>

definition main_delobj :: "params \<Rightarrow> env \<Rightarrow> locals \<Rightarrow> unit prog" where
  "main_delobj modl s3 l =
     (if l_obj l = None then fail_json ''object parameter is required''
      else if bucket modl \<noteq> [] then delete_key modl s3 (bucket modl) (l_obj l)
      else fail_json ''Bucket parameter is required.'')"

definition main_delete :: "params \<Rightarrow> env \<Rightarrow> locals \<Rightarrow> unit prog" where
  "main_delete modl s3 l =
     (if bucket modl \<noteq> []
      then and_then (delete_bucket modl s3 (bucket modl)) (\<lambda>deletertn.
             if deletertn
             then exit_json (result (''Bucket '' @ bucket modl @ '' and all keys have been deleted.'') True)
             else ret ())
      else fail_json ''Bucket parameter is required.'')"

definition main_list :: "params \<Rightarrow> env \<Rightarrow> locals \<Rightarrow> unit prog" where
  "main_list modl s3 l =
     and_then (bucket_check s3 (bucket modl) True) (\<lambda>exists.
       if \<not> exists
       then fail_json (''Target bucket ('' @ bucket modl @ '') cannot be found'')
       else list_keys s3 (bucket modl) (prefix modl) (marker modl) (max_keys modl))"

text \<open>The block \<^verbatim>\<open>if mode == 'create'\<close>; a key is made a directory key by a final \<open>/\<close>.\<close>

definition dirobj_of :: "string \<Rightarrow> string" where
  "dirobj_of obj = (if obj \<noteq> [] \<and> last obj = CHR ''/'' then obj else obj @ ''/'')"

definition main_create :: "params \<Rightarrow> env \<Rightarrow> locals \<Rightarrow> unit prog" where
  "main_create modl s3 l =
     and_then
       (if bucket modl \<noteq> [] \<and> \<not> truthy (l_obj l)
        then (if l_bucketrtn l
              then exit_json (result ''Bucket already exists.'' False)
              else and_then
                     (create_bucket (modl\<lparr>permission := l_bucket_acl l\<rparr>) s3 (bucket modl)
                        (Some (l_location l)))
                     (\<lambda>created. exit_json (no_result\<lparr>r_msg := Some ''Bucket created successfully'',
                                                      r_changed := created\<rparr>)))
        else ret ())
       (\<lambda>_.
          if bucket modl \<noteq> [] \<and> truthy (l_obj l)
          then
            (let dirobj = Some (dirobj_of (str_of (l_obj l))) in
             if l_bucketrtn l
             then and_then (key_check s3 (bucket modl) dirobj None True) (\<lambda>found.
                    if found
                    then exit_json (result (''Bucket '' @ bucket modl @ '' and key '' @ str_of (l_obj l)
                                            @ '' already exists.'') False)
                    else create_dirkey (modl\<lparr>permission := l_object_acl l\<rparr>) s3 (bucket modl) dirobj
                           (expiry modl))
             else and_then
                    (create_bucket (modl\<lparr>permission := l_bucket_acl l\<rparr>) s3 (bucket modl)
                       (Some (l_location l)))
                    (\<lambda>_. create_dirkey (modl\<lparr>permission := l_object_acl l\<rparr>) s3 (bucket modl) dirobj
                            (expiry modl)))
          else ret ())"

text \<open>The blocks \<^verbatim>\<open>if mode == 'geturl'\<close>, \<^verbatim>\<open>'getstr'\<close> and \<^verbatim>\<open>'copy'\<close>.\<close>

definition main_geturl :: "params \<Rightarrow> env \<Rightarrow> locals \<Rightarrow> unit prog" where
  "main_geturl modl s3 l =
     (if bucket modl = [] \<and> \<not> truthy (l_obj l)
      then fail_json ''Bucket and Object parameters must be set''
      else
        and_then (key_check s3 (bucket modl) (l_obj l) (version modl) (l_validate l)) (\<lambda>keyrtn.
          if keyrtn
          then and_then (get_current_object_tags_dict s3 (bucket modl) (l_obj l) (version modl)) (\<lambda>tgs.
                 get_download_url s3 (bucket modl) (l_obj l) (expiry modl) (Some tgs) True)
          else fail_json (''Key '' @ str_of (l_obj l) @ '' does not exist.'')))"

definition main_getstr :: "params \<Rightarrow> env \<Rightarrow> locals \<Rightarrow> unit prog" where
  "main_getstr modl s3 l =
     (if bucket modl \<noteq> [] \<and> truthy (l_obj l)
      then
        and_then (key_check s3 (bucket modl) (l_obj l) (version modl) (l_validate l)) (\<lambda>keyrtn.
          if keyrtn
          then retry_with_sigv4 (download_s3str modl s3 (bucket modl) (l_obj l) (version modl))
          else if version modl \<noteq> None
          then fail_json (''Key '' @ str_of (l_obj l) @ '' with version id '' @ str_of (version modl)
                          @ '' does not exist.'')
          else fail_json (''Key '' @ str_of (l_obj l) @ '' does not exist.''))
      else ret ())"

definition main_copy :: "params \<Rightarrow> env \<Rightarrow> locals \<Rightarrow> unit prog" where
  "main_copy modl s3 l =
     and_then
       (if l_bucketrtn l then get_etag s3 (bucket modl) (l_obj l) None
        else and_then
               (create_bucket (modl\<lparr>permission := l_bucket_acl l\<rparr>) s3 (bucket modl) (Some (l_location l)))
               (\<lambda>_. ret None))
       (\<lambda>d_etag. copy_object_to_bucket (modl\<lparr>permission := l_object_acl l\<rparr>) s3 (bucket modl) (l_obj l)
                    (l_validate l) d_etag)"

text \<open>
  The mode never changes, so of the mode blocks exactly one runs; a block that returns falls
  through to the final \<^verbatim>\<open>module.exit_json(failed=False)\<close>.
\<close>

definition main_mode :: "params \<Rightarrow> env \<Rightarrow> locals \<Rightarrow> unit prog" where
  "main_mode modl s3 l =
     (case mode modl of
        Get \<Rightarrow> main_get modl s3 l
      | Put \<Rightarrow> main_put modl s3 l
      | Delobj \<Rightarrow> main_delobj modl s3 l
      | Delete \<Rightarrow> main_delete modl s3 l
      | List_keys \<Rightarrow> main_list modl s3 l
      | Create \<Rightarrow> main_create modl s3 l
      | Geturl \<Rightarrow> main_geturl modl s3 l
      | Getstr \<Rightarrow> main_getstr modl s3 l
      | Copy \<Rightarrow> main_copy modl s3 l)"

definition main :: "params \<Rightarrow> env \<Rightarrow> unit prog" where
  "main modl s3 =
     and_then (main_setup modl s3) (\<lambda>l.
     and_then (main_mode modl s3 l) (\<lambda>_. exit_json no_result))"

text \<open>One run of the module: it starts on the empty history.\<close>

definition run :: "params \<Rightarrow> env \<Rightarrow> (stop + unit) \<times> history" where
  "run modl s3 = main modl s3 []"

section \<open>Example worlds\<close>

text \<open>
  Concrete parameters and collaborators, on which the properties below are run.
  \<open>plain_boolean\<close> accepts the lower-case spellings that \<^verbatim>\<open>module.boolean\<close> accepts.
\<close>

definition plain_boolean :: "string \<Rightarrow> string + bool" where
  "plain_boolean v =
     (if v \<in> set [''y'', ''yes'', ''on'', ''1'', ''true'', ''t''] then Inr True
      else if v \<in> set [''n'', ''no'', ''off'', ''0'', ''false'', ''f''] then Inr False
      else Inl (''The value '' @ [CHR 0x27] @ v @ [CHR 0x27] @ '' is not a valid boolean.''))"

definition calm_env :: env where
  "calm_env = \<lparr>HAS_MD5 = True, validate_bucket_name = (\<lambda>_. None), boolean = plain_boolean,
     region = None, environ_S3_URL = None, path_exists = (\<lambda>_. True), getmtime = (\<lambda>_. 200),
     standard_b64decode = Some,
     calculate_etag = (\<lambda>h f e b k v. Inr (Some ''abc'')),
     calculate_etag_content = (\<lambda>h c e b k v. Inr (Some ''abc'')),
     s3_call = (\<lambda>h ev. Inr ()),
     head_object = (\<lambda>h b k v. Inr \<lparr>ETag = ''abc'', LastModified = 100\<rparr>),
     get_object = (\<lambda>h b k v. Inr ''data''),
     generate_presigned_url = (\<lambda>h m b k e. Inr ''https://s3/url''),
     get_object_tagging = (\<lambda>h b k v. Inr fmempty),
     list_objects_v2 = (\<lambda>h b p m k. ([], None)),
     list_object_versions = (\<lambda>h b. ([], None))\<rparr>"

definition sample_params :: params where
  "sample_params = \<lparr>bucket = ''mybucket'', dest = Some ''/tmp/f'', expiry = 600, marker = [],
     max_keys = 1000, mode = Get, object = Some ''/key.txt'', permission = [''private''],
     version = None, overwrite = ''always'', prefix = [], retries = 0, s3_url = None,
     dualstack = False, rgw = False, src = None, content = None, content_base64 = None,
     ignore_nonexistent_bucket = False, tags = None, purge_tags = True, copy_src = None,
     check_mode = False\<rparr>"

definition one_tag :: tagdict where
  "one_tag = fmupd ''env'' ''prod'' fmempty"

definition owner_tag :: tagdict where
  "owner_tag = fmupd ''owner'' ''ops'' fmempty"

definition tagging_env :: "tagdict \<Rightarrow> tagdict \<Rightarrow> env" where
  "tagging_env before after =
     calm_env\<lparr>get_object_tagging := (\<lambda>h b k v. if h = [] then Inr before else Inr after)\<rparr>"

definition tag_params :: "bool \<Rightarrow> params" where
  "tag_params purge = sample_params\<lparr>tags := Some one_tag, purge_tags := purge\<rparr>"

section \<open>Facts about the control flow\<close>

lemmas prog_defs = ret_def stop_with_def and_then_def try_except_else_def try_except_def
  log_event_def remote_def s3_do_def exit_json_def fail_json_def fail_json_aws_def raise_def helper_def

lemma tags_dict_history:
  "get_current_object_tags_dict s3 bkt obj ver h = (r, h') \<Longrightarrow>
     h' = h @ [Get_object_tagging bkt obj (version_arg ver)]"
  by (auto simp: get_current_object_tags_dict_def prog_defs split: sum.splits stop.splits if_splits)


lemma wait_tags_loop_shape:
  "wait_tags_loop n s3 bkt obj expected ver h = (r, h') \<Longrightarrow>
     \<exists>evs. h' = h @ evs
        \<and> set evs \<subseteq> {Get_object_tagging bkt obj (version_arg ver), Sleep 5}
        \<and> length (filter (\<lambda>e. e = Get_object_tagging bkt obj (version_arg ver)) evs) \<le> n
        \<and> (\<forall>t. r = Inr t \<longrightarrow> t = expected)"
proof (induction n arbitrary: h r h')
  case 0
  then show ?case by (auto simp: prog_defs)
next
  case (Suc n)
  let ?G = "Get_object_tagging bkt obj (version_arg ver)"
  obtain r1 h1 where g: "get_current_object_tags_dict s3 bkt obj ver h = (r1, h1)"
    by (cases "get_current_object_tags_dict s3 bkt obj ver h")
  then have h1: "h1 = h @ [?G]" by (rule tags_dict_history)
  show ?case
  proof (cases r1)
    case (Inl s)
    with Suc.prems g h1 have "h' = h @ [?G]" "\<forall>t. r \<noteq> Inr t"
      by (auto simp: prog_defs split: stop.splits if_splits)
    then show ?thesis by (intro exI[of _ "[?G]"]) simp
  next
    case (Inr t)
    show ?thesis
    proof (cases "t = expected")
      case True
      with Suc.prems g h1 Inr have "h' = h @ [?G]" "r = Inr expected"
        by (auto simp: prog_defs)
      then show ?thesis by (intro exI[of _ "[?G]"]) simp
    next
      case False
      with Suc.prems g h1 Inr
      have "wait_tags_loop n s3 bkt obj expected ver (h @ [?G, Sleep 5]) = (r, h')"
        by (auto simp: prog_defs)
      from Suc.IH[OF this] obtain evs where
        "h' = (h @ [?G, Sleep 5]) @ evs" "set evs \<subseteq> {?G, Sleep 5}"
        "length (filter (\<lambda>e. e = ?G) evs) \<le> n" "\<forall>t. r = Inr t \<longrightarrow> t = expected"
        by blast
      then show ?thesis by (intro exI[of _ "[?G, Sleep 5] @ evs"]) auto
    qed
  qed
qed



lemma and_then_Inr:
  "and_then m f h = (Inr v, h') \<Longrightarrow> \<exists>u hm. m h = (Inr u, hm) \<and> f u hm = (Inr v, h')"
  by (auto simp: and_then_def split: prod.splits sum.splits)

lemma wait_tags_are_applied_value:
  "wait_tags_are_applied s3 bkt obj expected ver h = (Inr t, h') \<Longrightarrow> t = expected"
  unfolding wait_tags_are_applied_def by (drule wait_tags_loop_shape) blast

lemma wait_tags_are_applied_history:
  "wait_tags_are_applied s3 bkt obj expected ver h = (r, h') \<Longrightarrow>
     \<exists>evs. h' = h @ evs \<and> set evs \<subseteq> {Get_object_tagging bkt obj (version_arg ver), Sleep 5}"
  unfolding wait_tags_are_applied_def by (drule wait_tags_loop_shape) blast

lemma fmadd_twice: "fmadd (fmadd m d) d = fmadd m d"
  by (metis fmadd_assoc fmadd_idempotent)

lemma fmadd_is_empty: "fmadd m d = fmempty \<Longrightarrow> m = fmempty"
  by (metis fmadd_empty(2) fmadd_idempotent fmadd_assoc fmdom_add fmdom_empty funion_fempty_right
        fmap_ext fmlookup_add fmempty_lookup fmdom_notI femptyE)

text \<open>What \<open>ensure_tags\<close> does once the current tags have been read.\<close>

lemma ensure_tags_unchanged:
  assumes "get_current_object_tags_dict client bkt obj None h = (Inr cur, h1)"
    and "case tags modl of None \<Rightarrow> True
         | Some d \<Rightarrow> (if purge_tags modl then d else fmadd cur d) = cur"
  shows "ensure_tags client modl bkt obj h = (Inr (cur, False), h1)"
  using assms
  by (auto simp: ensure_tags_def try_except_else_def ret_def Let_def split: option.splits)

lemma ensure_tags_changed:
  assumes "get_current_object_tags_dict client bkt obj None h = (Inr cur, h1)"
    and "tags modl = Some d"
    and "tgs = (if purge_tags modl then d else fmadd cur d)"
    and "tgs \<noteq> cur"
  shows "ensure_tags client modl bkt obj h =
           and_then
             (if tgs \<noteq> fmempty
              then try_except (put_object_tagging client bkt obj tgs)
                     (\<lambda>e. if is_botocore e then fail_json_aws e ''Failed to update object tags.''
                          else raise e)
              else try_except (delete_object_tagging client bkt obj)
                     (\<lambda>e. if is_botocore e then fail_json_aws e ''Failed to delete object tags.''
                          else raise e))
             (\<lambda>_. and_then (wait_tags_are_applied client bkt obj tgs None)
                     (\<lambda>current_tags_dict. ret (current_tags_dict, True))) h1"
proof -
  have "purge_tags modl" if "tgs = fmempty"
  proof (rule ccontr)
    assume "\<not> purge_tags modl"
    with assms(3) that have "fmadd cur d = fmempty" by simp
    then have "cur = fmempty" by (rule fmadd_is_empty)
    with that assms(4) show False by simp
  qed
  then show ?thesis
    using assms
    by (auto simp: ensure_tags_def try_except_else_def Let_def)
qed

lemma and_then_apply:
  "and_then m f h = (case m h of (Inl s, h') \<Rightarrow> (Inl s, h') | (Inr v, h') \<Rightarrow> f v h')"
  by (simp add: and_then_def)

lemma put_object_tagging_step:
  "try_except (put_object_tagging client bkt obj tgs)
     (\<lambda>e. if is_botocore e then fail_json_aws e m else raise e) h1 = (r2, h2) \<Longrightarrow>
   h2 = h1 @ [Put_object_tagging bkt obj tgs]"
  by (auto simp: put_object_tagging_def prog_defs split: sum.splits if_splits)

lemma ensure_tags_merge_history:
  assumes np: "purge_tags modl = False" and tg: "tags modl = Some desired"
    and rd: "get_current_object_tags_dict client bkt obj None h = (Inr cur, h1)"
    and run: "ensure_tags client modl bkt obj h = (r, h')"
  shows "\<exists>evs. h' = h1 @ evs
      \<and> set evs \<subseteq> {Put_object_tagging bkt obj (fmadd cur desired),
                       Get_object_tagging bkt obj None, Sleep 5}
      \<and> (fmadd cur desired \<noteq> cur \<longrightarrow> Put_object_tagging bkt obj (fmadd cur desired) \<in> set evs)
      \<and> (\<forall>t c. r = Inr (t, c) \<longrightarrow> t = fmadd cur desired)"
proof (cases "fmadd cur desired = cur")
  case True
  with np tg have "case tags modl of None \<Rightarrow> True
         | Some d \<Rightarrow> (if purge_tags modl then d else fmadd cur d) = cur" by simp
  from ensure_tags_unchanged[OF rd this] run True
  have "h' = h1" "r = Inr (cur, False)" by simp_all
  with True show ?thesis by (intro exI[of _ "[]"]) simp
next
  case False
  let ?tgs = "fmadd cur desired"
  let ?put = "try_except (put_object_tagging client bkt obj ?tgs)
                (\<lambda>e. if is_botocore e then fail_json_aws e ''Failed to update object tags.'' else raise e)"
  have ne: "?tgs \<noteq> fmempty"
  proof
    assume e: "?tgs = fmempty"
    then have "cur = fmempty" by (rule fmadd_is_empty)
    with e False show False by simp
  qed
  have t3: "?tgs = (if purge_tags modl then desired else fmadd cur desired)" using np by simp
  from ensure_tags_changed[OF rd tg t3 False] ne run
  have unfolded: "and_then ?put
             (\<lambda>_. and_then (wait_tags_are_applied client bkt obj ?tgs None)
                     (\<lambda>current_tags_dict. ret (current_tags_dict, True))) h1 = (r, h')"
    by simp
  obtain r2 h2 where p: "?put h1 = (r2, h2)" by (cases "?put h1")
  from put_object_tagging_step[OF p] have h2: "h2 = h1 @ [Put_object_tagging bkt obj ?tgs]" .
  show ?thesis
  proof (cases r2)
    case (Inl s)
    with p have "?put h1 = (Inl s, h2)" by simp
    with unfolded h2
    have "h' = h1 @ [Put_object_tagging bkt obj ?tgs]" "\<forall>t c. r \<noteq> Inr (t, c)"
      by (auto simp: and_then_apply)
    then show ?thesis by (intro exI[of _ "[Put_object_tagging bkt obj ?tgs]"]) simp
  next
    case (Inr u)
    obtain r3 h3 where w: "wait_tags_are_applied client bkt obj ?tgs None h2 = (r3, h3)"
      by (cases "wait_tags_are_applied client bkt obj ?tgs None h2")
    from wait_tags_are_applied_history[OF w] obtain evs where
      evs: "h3 = h2 @ evs" "set evs \<subseteq> {Get_object_tagging bkt obj None, Sleep 5}"
      by (auto simp: version_arg_def)
    from p Inr have "?put h1 = (Inr u, h2)" by simp
    with unfolded
    have "and_then (wait_tags_are_applied client bkt obj ?tgs None)
                     (\<lambda>current_tags_dict. ret (current_tags_dict, True)) h2 = (r, h')"
      by (simp add: and_then_apply)
    with w have "(case r3 of Inl s \<Rightarrow> (Inl s, h3) | Inr t \<Rightarrow> (Inr (t, True), h3)) = (r, h')"
      by (simp add: and_then_apply ret_def split: sum.splits)
    then have res: "h' = h3 \<and> (\<forall>t c. r = Inr (t, c) \<longrightarrow> r3 = Inr t)"
      by (cases r3) auto
    have "t = ?tgs" if "r = Inr (t, c)" for t c
    proof -
      from that res have "r3 = Inr t" by simp
      with w have "wait_tags_are_applied client bkt obj ?tgs None h2 = (Inr t, h3)" by simp
      then show ?thesis by (rule wait_tags_are_applied_value)
    qed
    with res evs h2 show ?thesis
      by (intro exI[of _ "Put_object_tagging bkt obj ?tgs # evs"]) auto
  qed
qed

lemma ensure_tags_fixpoint:
  assumes "ensure_tags client modl bkt obj h = (Inr (t, c), h')"
  shows "case tags modl of None \<Rightarrow> True
         | Some d \<Rightarrow> (if purge_tags modl then d else fmadd t d) = t"
proof (cases "tags modl")
  case None
  then show ?thesis by simp
next
  case (Some d)
  obtain r1 h1 where rd: "get_current_object_tags_dict client bkt obj None h = (r1, h1)"
    by (cases "get_current_object_tags_dict client bkt obj None h")
  show ?thesis
  proof (cases r1)
    case (Inl s)
    with rd have "\<exists>s' h2. ensure_tags client modl bkt obj h = (Inl s', h2)"
      by (cases s)
         (simp_all add: ensure_tags_def try_except_else_def and_then_def log_event_def raise_def
            stop_with_def fail_json_aws_def)
    with assms show ?thesis by simp
  next
    case (Inr cur)
    let ?tgs = "if purge_tags modl then d else fmadd cur d"
    show ?thesis
    proof (cases "?tgs = cur")
      case True
      with Some have "case tags modl of None \<Rightarrow> True
         | Some d \<Rightarrow> (if purge_tags modl then d else fmadd cur d) = cur" by simp
      from ensure_tags_unchanged[OF rd[unfolded Inr] this] assms have "t = cur" by simp
      with True Some show ?thesis by (auto split: if_splits)
    next
      case False
      from ensure_tags_changed[OF rd[unfolded Inr] Some refl False] assms
      have "and_then
             (if ?tgs \<noteq> fmempty
              then try_except (put_object_tagging client bkt obj ?tgs)
                     (\<lambda>e. if is_botocore e then fail_json_aws e ''Failed to update object tags.''
                          else raise e)
              else try_except (delete_object_tagging client bkt obj)
                     (\<lambda>e. if is_botocore e then fail_json_aws e ''Failed to delete object tags.''
                          else raise e))
             (\<lambda>_. and_then (wait_tags_are_applied client bkt obj ?tgs None)
                     (\<lambda>current_tags_dict. ret (current_tags_dict, True))) h1 = (Inr (t, c), h')"
        by simp
      from and_then_Inr[OF this] obtain hw where
        "and_then (wait_tags_are_applied client bkt obj ?tgs None)
                     (\<lambda>current_tags_dict. ret (current_tags_dict, True)) hw = (Inr (t, c), h')"
        by blast
      from and_then_Inr[OF this] obtain t' hw' where
        "wait_tags_are_applied client bkt obj ?tgs None hw = (Inr t', hw')"
        "ret (t', True) hw' = (Inr (t, c), h')"
        by blast
      then have "wait_tags_are_applied client bkt obj ?tgs None hw = (Inr t, hw')"
        by (simp add: ret_def)
      then have "t = ?tgs" by (rule wait_tags_are_applied_value)
      then show ?thesis using Some by (simp add: fmadd_twice)
    qed
  qed
qed

section \<open>Tag reconciliation\<close>




text \<open>
  Claim C5. With \<^verbatim>\<open>purge_tags\<close> false and desired tags given, the only tag set that
  \<^verbatim>\<open>ensure_tags\<close> writes, and the one it returns, is the current tags updated with the desired
  ones: it has every key of the current tags, the desired value on every desired key and the
  current value elsewhere. No tag deletion is issued, and the write is issued whenever the
  target differs from the current tags.
\<close>

theorem ensure_tags_merge:
  assumes "purge_tags modl = False" and "tags modl = Some desired"
    and "get_current_object_tags_dict client bkt obj None h = (Inr cur, h1)"
    and "ensure_tags client modl bkt obj h = (r, h')"
  shows "\<exists>evs target. h' = h1 @ evs
      \<and> (\<forall>b k. Delete_object_tagging b k \<notin> set evs)
      \<and> (\<forall>b k t. Put_object_tagging b k t \<in> set evs \<longrightarrow> t = target)
      \<and> (target \<noteq> cur \<longrightarrow> Put_object_tagging bkt obj target \<in> set evs)
      \<and> (\<forall>t c. r = Inr (t, c) \<longrightarrow> t = target)
      \<and> fmdom cur |\<subseteq>| fmdom target
      \<and> (\<forall>k. k |\<in>| fmdom desired \<longrightarrow> fmlookup target k = fmlookup desired k)
      \<and> (\<forall>k. k |\<notin>| fmdom desired \<longrightarrow> fmlookup target k = fmlookup cur k)"
proof -
  from ensure_tags_merge_history[OF assms] obtain evs where
    evs: "h' = h1 @ evs"
      "set evs \<subseteq> {Put_object_tagging bkt obj (fmadd cur desired), Get_object_tagging bkt obj None, Sleep 5}"
      "fmadd cur desired \<noteq> cur \<longrightarrow> Put_object_tagging bkt obj (fmadd cur desired) \<in> set evs"
      "\<forall>t c. r = Inr (t, c) \<longrightarrow> t = fmadd cur desired"
    by blast
  from evs(2) have "\<forall>b k. Delete_object_tagging b k \<notin> set evs"
    and "\<forall>b k t. Put_object_tagging b k t \<in> set evs \<longrightarrow> t = fmadd cur desired"
    by auto
  moreover have "fmdom cur |\<subseteq>| fmdom (fmadd cur desired)" by auto
  moreover have "\<forall>k. k |\<in>| fmdom desired \<longrightarrow> fmlookup (fmadd cur desired) k = fmlookup desired k"
    by simp
  moreover have "\<forall>k. k |\<notin>| fmdom desired \<longrightarrow> fmlookup (fmadd cur desired) k = fmlookup cur k"
    by simp
  ultimately show ?thesis using evs(1,3,4)
    by (intro exI[of _ evs] exI[of _ "fmadd cur desired"]) simp
qed

theorem ensure_tags_merge_witness:
  "purge_tags (tag_params False) = False \<and> tags (tag_params False) = Some one_tag
   \<and> (\<exists>evs target.
        snd (ensure_tags (tagging_env owner_tag (fmadd owner_tag one_tag)) (tag_params False)
               ''b'' (Some ''k'') []) = [Get_object_tagging ''b'' (Some ''k'') None] @ evs
      \<and> (\<forall>b k. Delete_object_tagging b k \<notin> set evs)
      \<and> (\<forall>b k t. Put_object_tagging b k t \<in> set evs \<longrightarrow> t = target)
      \<and> (target \<noteq> owner_tag \<longrightarrow> Put_object_tagging ''b'' (Some ''k'') target \<in> set evs)
      \<and> (\<forall>t c. fst (ensure_tags (tagging_env owner_tag (fmadd owner_tag one_tag)) (tag_params False)
               ''b'' (Some ''k'') []) = Inr (t, c) \<longrightarrow> t = target)
      \<and> fmdom owner_tag |\<subseteq>| fmdom target
      \<and> (\<forall>k. k |\<in>| fmdom one_tag \<longrightarrow> fmlookup target k = fmlookup one_tag k)
      \<and> (\<forall>k. k |\<notin>| fmdom one_tag \<longrightarrow> fmlookup target k = fmlookup owner_tag k))"
proof -
  have p: "purge_tags (tag_params False) = False" by (simp add: tag_params_def)
  have t: "tags (tag_params False) = Some one_tag" by (simp add: tag_params_def)
  have rd: "get_current_object_tags_dict (tagging_env owner_tag (fmadd owner_tag one_tag))
              ''b'' (Some ''k'') None [] = (Inr owner_tag, [Get_object_tagging ''b'' (Some ''k'') None])"
    by code_simp
  from ensure_tags_merge[OF p t rd surjective_pairing] p t show ?thesis by simp
qed

text \<open>
  Claim C4. When the target computed by \<^verbatim>\<open>ensure_tags\<close> equals the tags it has just read,
  it issues no call besides that read and reports \<open>changed = False\<close>. Hence a second
  application of the same request, reading the tags the first one returned, changes nothing.
\<close>

theorem ensure_tags_idempotent:
  "(get_current_object_tags_dict client bkt obj None h = (Inr cur, h1)
      \<and> (case tags modl of None \<Rightarrow> True
          | Some d \<Rightarrow> (if purge_tags modl then d else fmadd cur d) = cur)
     \<longrightarrow> ensure_tags client modl bkt obj h = (Inr (cur, False), h1)
         \<and> h1 = h @ [Get_object_tagging bkt obj None])
   \<and> (ensure_tags client modl bkt obj h = (Inr (t, c), h')
      \<and> get_current_object_tags_dict client2 bkt obj None h2 = (Inr t, h3)
     \<longrightarrow> ensure_tags client2 modl bkt obj h2 = (Inr (t, False), h3)
         \<and> h3 = h2 @ [Get_object_tagging bkt obj None])"
proof (intro conjI impI)
  assume a: "get_current_object_tags_dict client bkt obj None h = (Inr cur, h1)
      \<and> (case tags modl of None \<Rightarrow> True
          | Some d \<Rightarrow> (if purge_tags modl then d else fmadd cur d) = cur)"
  then show "ensure_tags client modl bkt obj h = (Inr (cur, False), h1)"
    using ensure_tags_unchanged by blast
  from a show "h1 = h @ [Get_object_tagging bkt obj None]"
    using tags_dict_history by (fastforce simp: version_arg_def)
next
  assume b: "ensure_tags client modl bkt obj h = (Inr (t, c), h')
      \<and> get_current_object_tags_dict client2 bkt obj None h2 = (Inr t, h3)"
  then have "case tags modl of None \<Rightarrow> True
         | Some d \<Rightarrow> (if purge_tags modl then d else fmadd t d) = t"
    using ensure_tags_fixpoint by blast
  with b show "ensure_tags client2 modl bkt obj h2 = (Inr (t, False), h3)"
    using ensure_tags_unchanged by blast
  from b show "h3 = h2 @ [Get_object_tagging bkt obj None]"
    using tags_dict_history by (fastforce simp: version_arg_def)
qed

theorem ensure_tags_idempotent_witness:
  "ensure_tags (tagging_env one_tag one_tag) (tag_params True) ''b'' (Some ''k'') [] =
     (Inr (one_tag, False), [Get_object_tagging ''b'' (Some ''k'') None])
   \<and> ensure_tags (tagging_env fmempty one_tag) (tag_params True) ''b'' (Some ''k'')
       [Get_object_tagging ''b'' (Some ''k'') None, Put_object_tagging ''b'' (Some ''k'') one_tag,
        Get_object_tagging ''b'' (Some ''k'') None] =
     (Inr (one_tag, False),
       [Get_object_tagging ''b'' (Some ''k'') None, Put_object_tagging ''b'' (Some ''k'') one_tag,
        Get_object_tagging ''b'' (Some ''k'') None, Get_object_tagging ''b'' (Some ''k'') None])"
proof -
  let ?G = "Get_object_tagging ''b'' (Some ''k'') None"
  let ?P = "Put_object_tagging ''b'' (Some ''k'') one_tag"
  have read1: "get_current_object_tags_dict (tagging_env one_tag one_tag) ''b'' (Some ''k'') None [] =
                 (Inr one_tag, [?G])"
    by code_simp
  have target: "case tags (tag_params True) of None \<Rightarrow> True
                | Some d \<Rightarrow> (if purge_tags (tag_params True) then d else fmadd one_tag d) = one_tag"
    by (simp add: tag_params_def)
  have first: "ensure_tags (tagging_env fmempty one_tag) (tag_params True) ''b'' (Some ''k'') [] =
                 (Inr (one_tag, True), [?G, ?P, ?G])"
    by code_simp
  have read2: "get_current_object_tags_dict (tagging_env fmempty one_tag) ''b'' (Some ''k'') None [?G, ?P, ?G] =
                 (Inr one_tag, [?G, ?P, ?G, ?G])"
    by code_simp
  have a: "ensure_tags (tagging_env one_tag one_tag) (tag_params True) ''b'' (Some ''k'') [] =
             (Inr (one_tag, False), [?G]) \<and> [?G] = [] @ [?G]"
    by (rule mp[OF conjunct1[OF ensure_tags_idempotent]]) (simp add: read1 target)
  have b: "ensure_tags (tagging_env fmempty one_tag) (tag_params True) ''b'' (Some ''k'') [?G, ?P, ?G] =
             (Inr (one_tag, False), [?G, ?P, ?G, ?G]) \<and> [?G, ?P, ?G, ?G] = [?G, ?P, ?G] @ [?G]"
    by (rule mp[OF conjunct2[OF ensure_tags_idempotent
            [where client="tagging_env fmempty one_tag" and h="[]" and c=True and h'="[?G, ?P, ?G]"]]])
       (simp add: first read2)
  from a b show ?thesis by simp
qed

section \<open>Programs applied to a history\<close>

lemma ret_apply: "ret v h = (Inr v, h)" by (simp add: ret_def)

lemma stop_with_apply: "stop_with s h = (Inl s, h)" by (simp add: stop_with_def)

lemma exit_json_apply: "exit_json r h = (Inl (Exit_json r), h)" by (simp add: exit_json_def stop_with_def)

lemma fail_json_apply: "fail_json m h = (Inl (Fail_json m), h)" by (simp add: fail_json_def stop_with_def)

lemma fail_json_aws_apply: "fail_json_aws e m h = (Inl (Fail_json_aws e m), h)"
  by (simp add: fail_json_aws_def stop_with_def)

lemma raise_apply: "raise e h = (Inl (Raise e), h)" by (simp add: raise_def stop_with_def)

lemma log_event_apply: "log_event ev h = (Inr (), h @ [ev])" by (simp add: log_event_def)

lemma remote_apply:
  "remote oracle ev h = (case oracle h of Inl e \<Rightarrow> Inl (Raise (S3 e)) | Inr v \<Rightarrow> Inr v, h @ [ev])"
  by (simp add: remote_def)

lemma s3_do_apply:
  "s3_do s3 ev h = (case s3_call s3 h ev of Inl e \<Rightarrow> Inl (Raise (S3 e)) | Inr v \<Rightarrow> Inr v, h @ [ev])"
  by (simp add: s3_do_def remote_def)

lemma helper_apply: "helper oracle ev h = (oracle h, h @ [ev])" by (simp add: helper_def)

lemma try_except_else_apply:
  "try_except_else m handler body h =
     (case m h of (Inl (Raise e), h') \<Rightarrow> handler e h' | (Inl s, h') \<Rightarrow> (Inl s, h')
      | (Inr v, h') \<Rightarrow> body v h')"
  by (simp add: try_except_else_def)

lemma try_except_apply:
  "try_except m handler h =
     (case m h of (Inl (Raise e), h') \<Rightarrow> handler e h' | (Inl s, h') \<Rightarrow> (Inl s, h')
      | (Inr v, h') \<Rightarrow> (Inr v, h'))"
  by (simp add: try_except_def try_except_else_def ret_def split: prod.splits sum.splits stop.splits)

lemmas prog_apply = ret_apply stop_with_apply exit_json_apply fail_json_apply fail_json_aws_apply
  raise_apply log_event_apply remote_apply s3_do_apply helper_apply try_except_else_apply
  try_except_apply and_then_apply

section \<open>The overwrite parameter\<close>

lemmas mode_defs = main_mode_def main_get_def main_put_def main_delobj_def main_delete_def
  main_list_def main_create_def main_geturl_def main_getstr_def main_copy_def

lemmas module_defs = create_bucket_def delete_bucket_def delete_key_def ensure_tags_def
  create_dirkey_def upload_s3file_def download_s3file_def download_s3str_def
  copy_object_to_bucket_def




lemma main_mode_ignores_overwrite:
  "main_mode (modl\<lparr>overwrite := x\<rparr>) s3 l = main_mode modl s3 l"
proof -
  have "main_get (modl\<lparr>overwrite := x\<rparr>) s3 l = main_get modl s3 l"
    by (simp add: main_get_def module_defs cong: if_cong option.case_cong)
  moreover have "main_put (modl\<lparr>overwrite := x\<rparr>) s3 l = main_put modl s3 l"
    by (simp add: main_put_def module_defs cong: if_cong option.case_cong)
  moreover have "main_delobj (modl\<lparr>overwrite := x\<rparr>) s3 l = main_delobj modl s3 l"
    by (simp add: main_delobj_def module_defs cong: if_cong option.case_cong)
  moreover have "main_delete (modl\<lparr>overwrite := x\<rparr>) s3 l = main_delete modl s3 l"
    by (simp add: main_delete_def module_defs cong: if_cong option.case_cong)
  moreover have "main_list (modl\<lparr>overwrite := x\<rparr>) s3 l = main_list modl s3 l"
    by (simp add: main_list_def module_defs cong: if_cong option.case_cong)
  moreover have "main_create (modl\<lparr>overwrite := x\<rparr>) s3 l = main_create modl s3 l"
    by (simp add: main_create_def module_defs cong: if_cong option.case_cong)
  moreover have "main_geturl (modl\<lparr>overwrite := x\<rparr>) s3 l = main_geturl modl s3 l"
    by (simp add: main_geturl_def module_defs cong: if_cong option.case_cong)
  moreover have "main_getstr (modl\<lparr>overwrite := x\<rparr>) s3 l = main_getstr modl s3 l"
    by (simp add: main_getstr_def module_defs cong: if_cong option.case_cong)
  moreover have "main_copy (modl\<lparr>overwrite := x\<rparr>) s3 l = main_copy modl s3 l"
    by (simp add: main_copy_def module_defs cong: if_cong option.case_cong)
  ultimately show ?thesis
    by (cases "mode modl") (simp_all add: main_mode_def)
qed

lemma main_setup_coerced:
  assumes "overwrite modl \<notin> set [''always'', ''never'', ''different'', ''latest'']"
    and "boolean s3 (overwrite modl) = Inr b"
  shows "main_setup modl s3 = main_setup (modl\<lparr>overwrite := (if b then ''always'' else ''never'')\<rparr>) s3"
  using assms
  by (cases b)
     (simp_all add: main_setup_def overwrite_policy_def object_key_def endpoint_url_def Let_def
        cong: if_cong option.case_cong)

lemma main_setup_rejected:
  assumes "overwrite modl \<notin> set [''always'', ''never'', ''different'', ''latest'']"
    and "boolean s3 (overwrite modl) = Inl m"
  shows "main_setup modl s3 h =
           (Inl (Fail_json (case validate_bucket_name s3 (bucket modl) of Some m' \<Rightarrow> m' | None \<Rightarrow> m)), h)"
  using assms by (simp add: main_setup_def overwrite_policy_def prog_apply split: option.splits)

text \<open>
  Claim C10, as stated, fails: a value that is neither one of the four names nor a boolean
  is rejected by \<^verbatim>\<open>module.boolean\<close>, and the module stops.
\<close>

theorem overwrite_rejected_counterexample:
  "''sometimes'' \<notin> set [''always'', ''never'', ''different'', ''latest'']
   \<and> run (sample_params\<lparr>overwrite := ''sometimes''\<rparr>) calm_env =
       (Inl (Fail_json ''The value 'sometimes' is not a valid boolean.''), [])"
  by code_simp

text \<open>
  Claim C10, amended. A value of \<^verbatim>\<open>overwrite\<close> outside the four names is handed to
  \<^verbatim>\<open>module.boolean\<close>. When that answers with a boolean, the run is the run with
  \<^verbatim>\<open>always\<close> (true) or \<^verbatim>\<open>never\<close> (false) in its place; when it rejects the value, the
  module stops with \<^verbatim>\<open>fail_json\<close> before any call.
\<close>

theorem overwrite_coercion:
  assumes "overwrite modl \<notin> set [''always'', ''never'', ''different'', ''latest'']"
  shows "(\<forall>b. boolean s3 (overwrite modl) = Inr b \<longrightarrow>
            run modl s3 = run (modl\<lparr>overwrite := (if b then ''always'' else ''never'')\<rparr>) s3)
       \<and> (\<forall>m. boolean s3 (overwrite modl) = Inl m \<longrightarrow>
            (\<exists>m'. run modl s3 = (Inl (Fail_json m'), [])
                 \<and> (validate_bucket_name s3 (bucket modl) = None \<longrightarrow> m' = m)))"
proof (intro conjI allI impI)
  fix b assume b: "boolean s3 (overwrite modl) = Inr b"
  show "run modl s3 = run (modl\<lparr>overwrite := (if b then ''always'' else ''never'')\<rparr>) s3"
    unfolding run_def main_def main_setup_coerced[OF assms b] main_mode_ignores_overwrite ..
next
  fix m assume m: "boolean s3 (overwrite modl) = Inl m"
  from main_setup_rejected[OF assms m, of "[]"]
  show "\<exists>m'. run modl s3 = (Inl (Fail_json m'), [])
                 \<and> (validate_bucket_name s3 (bucket modl) = None \<longrightarrow> m' = m)"
    by (simp add: run_def main_def and_then_apply split: option.splits)
qed

theorem overwrite_coercion_witness:
  "run (sample_params\<lparr>overwrite := ''yes''\<rparr>) calm_env = run (sample_params\<lparr>overwrite := ''always''\<rparr>) calm_env
   \<and> run (sample_params\<lparr>overwrite := ''sometimes''\<rparr>) calm_env =
       (Inl (Fail_json ''The value 'sometimes' is not a valid boolean.''), [])"
proof -
  have y: "overwrite (sample_params\<lparr>overwrite := ''yes''\<rparr>) \<notin> set [''always'', ''never'', ''different'', ''latest'']"
    by simp
  have yb: "boolean calm_env (overwrite (sample_params\<lparr>overwrite := ''yes''\<rparr>)) = Inr True"
    by (simp add: calm_env_def plain_boolean_def)
  have s: "overwrite (sample_params\<lparr>overwrite := ''sometimes''\<rparr>) \<notin> set [''always'', ''never'', ''different'', ''latest'']"
    by simp
  have sb: "boolean calm_env (overwrite (sample_params\<lparr>overwrite := ''sometimes''\<rparr>)) =
              Inl ''The value 'sometimes' is not a valid boolean.''"
    by (simp add: calm_env_def plain_boolean_def)
  have v: "validate_bucket_name calm_env (bucket (sample_params\<lparr>overwrite := ''sometimes''\<rparr>)) = None"
    by (simp add: calm_env_def)
  from conjunct1[OF overwrite_coercion[OF y, of calm_env], rule_format, OF yb]
  have "run (sample_params\<lparr>overwrite := ''yes''\<rparr>) calm_env =
          run (sample_params\<lparr>overwrite := ''yes'', overwrite := ''always''\<rparr>) calm_env"
    by simp
  moreover from conjunct2[OF overwrite_coercion[OF s, of calm_env], rule_format, OF sb] v
  have "run (sample_params\<lparr>overwrite := ''sometimes''\<rparr>) calm_env =
       (Inl (Fail_json ''The value 'sometimes' is not a valid boolean.''), [])"
    by auto
  ultimately show ?thesis by simp
qed

end
